theory Spec2Isabelle
  imports Main
begin

section \<open>JavaScript values\<close>

text \<open>
  The payloads the client passes through are JSON documents, and several branches of the
  source test a value for truthiness (\<^verbatim>\<open>if (value)\<close>, \<^verbatim>\<open>if (!this.refreshToken)\<close>,
  \<^verbatim>\<open>if (response.data.access_token)\<close>). Numbers are restricted to integers; \<^verbatim>\<open>NaN\<close> and
  fractions do not occur in any branch that the theorems below look at.
\<close>

datatype jsval =
    JUndefined
  | JNull
  | JBool bool
  | JNum int
  | JStr string
  | JArr "jsval list"
  | JObj "(string \<times> jsval) list"

fun truthy :: "jsval \<Rightarrow> bool" where
  "truthy JUndefined = False"
| "truthy JNull = False"
| "truthy (JBool b) = b"
| "truthy (JNum n) = (n \<noteq> 0)"
| "truthy (JStr s) = (s \<noteq> [])"
| "truthy (JArr xs) = True"
| "truthy (JObj kvs) = True"

text \<open>
  Reading a property of \<^verbatim>\<open>null\<close> or \<^verbatim>\<open>undefined\<close> throws a TypeError; on every other value
  a missing property reads as \<^verbatim>\<open>undefined\<close>.
\<close>

fun nullish :: "jsval \<Rightarrow> bool" where
  "nullish JUndefined = True"
| "nullish JNull = True"
| "nullish v = False"

fun getProp :: "jsval \<Rightarrow> string \<Rightarrow> jsval" where
  "getProp (JObj kvs) k = (case map_of kvs k of None \<Rightarrow> JUndefined | Some v \<Rightarrow> v)"
| "getProp v k = JUndefined"

section \<open>lib/cache.js\<close>

subsection \<open>Cache.generateKey\<close>

text \<open>
  \<^verbatim>\<open>static generateKey(namespace, identifier) { return `${namespace}:${identifier}`; }\<close>
  Both arguments are strings at every call site (a literal namespace and the request URL).
\<close>

definition generateKey :: "string \<Rightarrow> string \<Rightarrow> string" where
  "generateKey namespace identifier = namespace @ '':'' @ identifier"

subsection \<open>The store behind the cache\<close>

text \<open>
  Modelled from the spec: the store that \<^verbatim>\<open>Cache\<close> wraps is the node-cache package, which
  is not among the sources. The spec describes an entry as a value with its insertion time
  and its TTL in seconds, read lazily: \<^verbatim>\<open>get\<close> returns the stored value if it is present
  and not expired, and otherwise reports it absent, removes an entry that is past its TTL and
  counts a miss; \<^verbatim>\<open>set\<close> overwrites the entry of the key and restarts its expiry clock.
  Times are milliseconds (\<^verbatim>\<open>Date.now()\<close>), passed in explicitly. The periodic sweep only
  removes entries that a read already reports absent and is left out, and so is any
  convention of the package for special TTL values, which the spec does not describe.
\<close>

record cache_entry =
  entry_value :: jsval
  insertedAt :: int
  ttlSeconds :: int

record NodeCache =
  entries :: "string \<rightharpoonup> cache_entry"
  hits :: nat
  misses :: nat
  stdTTL :: int

text \<open>
  Modelled from the spec: the expiry test of the store, which is not among the sources. An
  entry is past its TTL when more than \<open>ttlSeconds\<close> seconds have gone by since it was
  inserted.
\<close>

definition expired :: "int \<Rightarrow> cache_entry \<Rightarrow> bool" where
  "expired now e = (insertedAt e + ttlSeconds e * 1000 < now)"

text \<open>
  Modelled from the spec: \<^verbatim>\<open>get\<close> of the store, which is not among the sources. It
  checks the expiry lazily, removes an expired entry, and updates the hit and miss counters.
\<close>

definition NodeCache_get :: "int \<Rightarrow> string \<Rightarrow> NodeCache \<Rightarrow> jsval \<times> NodeCache" where
  "NodeCache_get now key nc =
     (case entries nc key of
        None \<Rightarrow> (JUndefined, nc\<lparr>misses := misses nc + 1\<rparr>)
      | Some e \<Rightarrow>
          if expired now e
          then (JUndefined, nc\<lparr>entries := (entries nc)(key := None), misses := misses nc + 1\<rparr>)
          else (entry_value e, nc\<lparr>hits := hits nc + 1\<rparr>))"

text \<open>
  Modelled from the spec: \<^verbatim>\<open>set\<close> of the store, which is not among the sources. It
  overwrites the entry of the key and restarts its expiry clock.
\<close>

definition NodeCache_set ::
  "int \<Rightarrow> string \<Rightarrow> jsval \<Rightarrow> int \<Rightarrow> NodeCache \<Rightarrow> bool \<times> NodeCache" where
  "NodeCache_set now key val ttl nc =
     (True, nc\<lparr>entries := (entries nc)(key \<mapsto>
        \<lparr>entry_value = val, insertedAt = now, ttlSeconds = ttl\<rparr>)\<rparr>)"

subsection \<open>The Cache class\<close>

text \<open>
  \<^verbatim>\<open>const DEFAULT_TTL = 300;\<close> The constructor hands its \<^verbatim>\<open>ttlSeconds\<close> (default
  \<^verbatim>\<open>DEFAULT_TTL\<close>) to the store as \<^verbatim>\<open>stdTTL\<close>. An argument that is not supplied is
  \<open>None\<close>, and the parameter default applies.
\<close>

definition DEFAULT_TTL :: int where
  "DEFAULT_TTL = 300"

definition Cache_new :: "int option \<Rightarrow> NodeCache" where
  "Cache_new ttl =
     \<lparr>entries = Map.empty, hits = 0, misses = 0,
      stdTTL = (case ttl of None \<Rightarrow> DEFAULT_TTL | Some t \<Rightarrow> t)\<rparr>"

text \<open>
  \<^verbatim>\<open>get(key) { const value = this.cache.get(key); if (value) { return value; } return null; }\<close>
\<close>

definition Cache_get :: "int \<Rightarrow> string \<Rightarrow> NodeCache \<Rightarrow> jsval \<times> NodeCache" where
  "Cache_get now key c =
     (let (val, c') = NodeCache_get now key c
      in if truthy val then (val, c') else (JNull, c'))"

text \<open>
  \<^verbatim>\<open>set(key, value, ttl = DEFAULT_TTL) { return this.cache.set(key, value, ttl); }\<close>
\<close>

definition Cache_set ::
  "int \<Rightarrow> string \<Rightarrow> jsval \<Rightarrow> int option \<Rightarrow> NodeCache \<Rightarrow> bool \<times> NodeCache" where
  "Cache_set now key val ttl c =
     NodeCache_set now key val (case ttl of None \<Rightarrow> DEFAULT_TTL | Some t \<Rightarrow> t) c"

section \<open>The cache middleware of index.js\<close>

text \<open>
  The Express request and response objects are not among the sources. The model keeps what
  \<^verbatim>\<open>cacheMiddleware\<close> and the route handlers use of them: \<^verbatim>\<open>req.originalUrl\<close> and
  \<^verbatim>\<open>req.url\<close>; \<^verbatim>\<open>res.statusCode\<close> (200 unless a handler changes it), \<^verbatim>\<open>res.status(n)\<close>,
  which sets it, and \<^verbatim>\<open>res.json(data)\<close> and \<^verbatim>\<open>res.send(text)\<close>, which transmit a body.
  The handler that runs after \<^verbatim>\<open>next()\<close> is a parameter: the list of calls it makes on
  \<^verbatim>\<open>res\<close>, in order.
\<close>

record express_req =
  originalUrl :: "string option"
  url :: string

datatype body = JsonBody jsval | RawBody string

record express_res =
  statusCode :: nat
  bodies :: "body list"

datatype res_call = Status nat | Json jsval | Send string

text \<open>\<^verbatim>\<open>`${req.originalUrl || req.url}`\<close>\<close>

definition requestTarget :: "express_req \<Rightarrow> string" where
  "requestTarget req =
     (case originalUrl req of
        None \<Rightarrow> url req
      | Some u \<Rightarrow> if u \<noteq> [] then u else url req)"

text \<open>
  After a miss the middleware replaces \<^verbatim>\<open>res.json\<close>:
  \<^verbatim>\<open>res.json = function (data) { if (res.statusCode === 200) { cache.set(key, data); }
    return originalJson.call(this, data); };\<close>
  \<^verbatim>\<open>res.status\<close> and \<^verbatim>\<open>res.send\<close> stay as they are. The handler answers at time
  \<open>later\<close>.
\<close>

fun overriddenCall ::
  "int \<Rightarrow> string \<Rightarrow> express_res \<times> NodeCache \<Rightarrow> res_call \<Rightarrow> express_res \<times> NodeCache" where
  "overriddenCall later key (res, c) (Status n) = (res\<lparr>statusCode := n\<rparr>, c)"
| "overriddenCall later key (res, c) (Json d) =
     (res\<lparr>bodies := bodies res @ [JsonBody d]\<rparr>,
      if statusCode res = 200 then snd (Cache_set later key d None c) else c)"
| "overriddenCall later key (res, c) (Send b) = (res\<lparr>bodies := bodies res @ [RawBody b]\<rparr>, c)"

text \<open>
  \<^verbatim>\<open>const cachedData = cache.get(key); if (cachedData) { return res.json(cachedData); }\<close>
  and otherwise the override above followed by \<^verbatim>\<open>next()\<close>.
\<close>

definition cacheMiddleware ::
  "string \<Rightarrow> int \<Rightarrow> int \<Rightarrow> express_req \<Rightarrow> res_call list \<Rightarrow> express_res \<times> NodeCache
     \<Rightarrow> express_res \<times> NodeCache" where
  "cacheMiddleware namespace now later req handler rc =
     (let key = generateKey namespace (requestTarget req);
          (cachedData, c1) = Cache_get now key (snd rc)
      in if truthy cachedData
         then ((fst rc)\<lparr>bodies := bodies (fst rc) @ [JsonBody cachedData]\<rparr>, c1)
         else foldl (overriddenCall later key) (fst rc, c1) handler)"

text \<open>
  The payload of the last \<^verbatim>\<open>res.json\<close> call that a handler makes while the status code is
  200, starting from status code \<open>st\<close>; \<open>None\<close> when it makes no such call.
\<close>

fun lastJson200 :: "nat \<Rightarrow> res_call list \<Rightarrow> jsval option" where
  "lastJson200 st [] = None"
| "lastJson200 st (Status n # cs) = lastJson200 n cs"
| "lastJson200 st (Json d # cs) =
     (case lastJson200 st cs of
        Some d' \<Rightarrow> Some d'
      | None \<Rightarrow> if st = 200 then Some d else None)"
| "lastJson200 st (Send b # cs) = lastJson200 st cs"

text \<open>
  A call through which a JSON route answers: \<^verbatim>\<open>res.status\<close> or \<^verbatim>\<open>res.json\<close>, not
  \<^verbatim>\<open>res.send\<close>.
\<close>

fun answersThroughJson :: "res_call \<Rightarrow> bool" where
  "answersThroughJson (Send b) = False"
| "answersThroughJson c = True"

text \<open>An example cache: the list of communities was stored at time 0.\<close>

definition warmCache :: NodeCache where
  "warmCache =
     snd (Cache_set 0 ''communities:/api/communities'' (JArr [JStr ''BTS'']) None (Cache_new None))"

section \<open>lib/weverseClient.js\<close>

subsection \<open>The upstream and the client state\<close>

text \<open>
  An error thrown in the client is a JavaScript \<^verbatim>\<open>Error\<close>: its \<^verbatim>\<open>message\<close>, and for an
  axios error with a response the \<^verbatim>\<open>error.response.status\<close> (\<open>None\<close> when no response
  was received: a network failure or a timeout, or an error that is not an HTTP error).
\<close>

datatype js_error = Error (message: string) (response_status: "nat option")

text \<open>
  The HTTP calls the client issues: a GET on the resource API through \<^verbatim>\<open>axiosInstance\<close>
  (path, \<^verbatim>\<open>params\<close>, and the token of the \<^verbatim>\<open>Authorization: Bearer\<close> default header at that
  moment), the GET of the login initialisation, the POST of the secure login (email and
  encrypted password) and the POST of the token exchange (the refresh token sent).
\<close>

datatype call =
    ResourceGet string "(string \<times> jsval) list" "jsval option"
  | InitializeGet
  | LoginPost string string
  | TokenPost jsval

text \<open>
  The platform is a parameter. \<open>http\<close> answers a call, given the calls issued before it,
  with the \<^verbatim>\<open>data\<close> of the response or with the error that axios rejects with;
  \<open>rsa_encrypt\<close> stands for the RSA-OAEP encryption of node-forge, which may throw.
\<close>

record env =
  http :: "call list \<Rightarrow> call \<Rightarrow> js_error + jsval"
  rsa_encrypt :: "string \<Rightarrow> js_error + string"

text \<open>
  The fields of \<^verbatim>\<open>WeverseClient\<close> that change: \<^verbatim>\<open>token\<close>, \<^verbatim>\<open>refreshToken\<close> and the
  \<^verbatim>\<open>Authorization\<close> default header of \<^verbatim>\<open>axiosInstance\<close> (the token it carries). \<open>calls\<close>
  records the HTTP calls issued so far, oldest first, so that they can be counted.
\<close>

record client =
  token :: jsval
  refreshToken :: jsval
  authorization :: "jsval option"
  calls :: "call list"

text \<open>
  The constructor: \<^verbatim>\<open>this.token = process.env.WEVERSE_API_TOKEN || null;
  this.refreshToken = null;\<close> and the header is set when the token is there.
\<close>

definition WeverseClient_new :: "string option \<Rightarrow> client" where
  "WeverseClient_new apiToken =
     (case apiToken of
        None \<Rightarrow> \<lparr>token = JNull, refreshToken = JNull, authorization = None, calls = []\<rparr>
      | Some t \<Rightarrow>
          if t \<noteq> []
          then \<lparr>token = JStr t, refreshToken = JNull, authorization = Some (JStr t), calls = []\<rparr>
          else \<lparr>token = JNull, refreshToken = JNull, authorization = None, calls = []\<rparr>)"

definition issue :: "env \<Rightarrow> call \<Rightarrow> client \<Rightarrow> (js_error + jsval) \<times> client" where
  "issue env c s = (http env (calls s) c, s\<lparr>calls := calls s @ [c]\<rparr>)"

subsection \<open>login and refreshAccessToken\<close>


text \<open>
  \<^verbatim>\<open>refreshAccessToken()\<close>: \<^verbatim>\<open>if (!this.refreshToken) return false;\<close> then the token
  exchange; on an access token \<^verbatim>\<open>this.token\<close> is replaced, and
  \<^verbatim>\<open>if (response.data.refresh_token) { this.refreshToken = response.data.refresh_token; }\<close>
\<close>

definition refreshAccessToken :: "env \<Rightarrow> client \<Rightarrow> bool \<times> client" where
  "refreshAccessToken env s =
     (if \<not> truthy (refreshToken s) then (False, s)
      else
        (case issue env (TokenPost (refreshToken s)) s of
           (Inl err, s1) \<Rightarrow> (False, s1)
         | (Inr data, s1) \<Rightarrow>
             if nullish data then (False, s1)
             else if truthy (getProp data ''access_token'')
             then (True, s1\<lparr>token := getProp data ''access_token'',
                            refreshToken :=
                              (if truthy (getProp data ''refresh_token'')
                               then getProp data ''refresh_token'' else refreshToken s1),
                            authorization := Some (getProp data ''access_token'')\<rparr>)
             else (False, s1)))"

subsection \<open>The resource operations\<close>

text \<open>
  The seven resource methods (\<^verbatim>\<open>getCommunities\<close>, \<^verbatim>\<open>getPost\<close>, \<^verbatim>\<open>getNotifications\<close>,
  \<^verbatim>\<open>getPosts\<close>, \<^verbatim>\<open>getArtists\<close>, \<^verbatim>\<open>getMedia\<close>, \<^verbatim>\<open>getComments\<close>) have one body and
  differ in the request they build and in the text of their error:
  \<^verbatim>\<open>try { const response = await this.axiosInstance.get(path, { params }); return response.data; }
  catch (error) {
    if (error.response && error.response.status === 401) {
      const refreshSuccessful = await this.refreshAccessToken();
      if (refreshSuccessful) { return this.getX(...); }
    }
    throw new Error(`Failed to get X: ${error.message}`);
  }\<close>
  \<open>attempt\<close> is the \<^verbatim>\<open>try\<close> block: building the request (which may itself throw) and the
  GET. \<open>resourceCall\<close> is the method, with the label and the request as arguments. The
  method calls itself after a successful refresh, with nothing that bounds the number of
  calls, so its result is an option: \<open>None\<close> when it never returns, \<open>Inl\<close> of the message
  when it throws.
\<close>

type_synonym get_request = "string \<times> (string \<times> jsval) list"

definition attempt ::
  "env \<Rightarrow> js_error + get_request \<Rightarrow> client \<Rightarrow> (js_error + jsval) \<times> client" where
  "attempt env built s =
     (case built of
        Inl err \<Rightarrow> (Inl err, s)
      | Inr (path, params) \<Rightarrow> issue env (ResourceGet path params (authorization s)) s)"

partial_function (option) resourceCall ::
  "env \<Rightarrow> string \<Rightarrow> js_error + get_request \<Rightarrow> client
     \<Rightarrow> ((string + jsval) \<times> client) option" where
  "resourceCall env label built s =
     (case attempt env built s of
        (Inr data, s1) \<Rightarrow> Some (Inr data, s1)
      | (Inl err, s1) \<Rightarrow>
          if response_status err = Some 401
          then (case refreshAccessToken env s1 of
                  (refreshSuccessful, s2) \<Rightarrow>
                    if refreshSuccessful then resourceCall env label built s2
                    else Some (Inl (label @ message err), s2))
          else Some (Inl (label @ message err), s1))"

text \<open>
  A parameter default (\<^verbatim>\<open>page = 1\<close>) applies when the argument is \<^verbatim>\<open>undefined\<close>.
  \<^verbatim>\<open>toUpperCase\<close> is modelled on ASCII letters only: a character outside ASCII is
  left as it is, where JavaScript uppercases every cased character. The routes admit the
  types \<^verbatim>\<open>artist\<close>, \<^verbatim>\<open>fan\<close> and \<^verbatim>\<open>all\<close> only, and no theorem below applies it to
  anything but \<^verbatim>\<open>artist\<close>.
\<close>

definition dflt :: "jsval \<Rightarrow> jsval \<Rightarrow> jsval" where
  "dflt d v = (if v = JUndefined then d else v)"

definition toUpperCase :: "string \<Rightarrow> string" where
  "toUpperCase s =
     map (\<lambda>c. let n = (of_char c :: nat)
               in if 97 \<le> n \<and> n \<le> 122 then char_of (n - 32) else c) s"

text \<open>
  An invocation of one of the seven methods, with its arguments after the defaults. The
  identifiers are strings (they are route parameters), the other arguments any value.
\<close>

datatype operation =
    GetCommunities
  | GetPost string
  | GetNotifications jsval jsval
  | GetPosts string jsval jsval jsval
  | GetArtists string
  | GetMedia string
  | GetComments string jsval jsval

text \<open>The text each method puts in front of the cause when it throws.\<close>

fun opLabel :: "operation \<Rightarrow> string" where
  "opLabel GetCommunities = ''Failed to get communities: ''"
| "opLabel (GetPost postId) = ''Failed to get post: ''"
| "opLabel (GetNotifications page size') = ''Failed to get notifications: ''"
| "opLabel (GetPosts communityId page size' type) = ''Failed to get posts: ''"
| "opLabel (GetArtists communityId) = ''Failed to get artists: ''"
| "opLabel (GetMedia postId) = ''Failed to get media: ''"
| "opLabel (GetComments postId page size') = ''Failed to get comments: ''"

text \<open>
  The request each method builds. \<^verbatim>\<open>getPosts\<close> starts from
  \<^verbatim>\<open>{ page, size, sort: 'RECENT' }\<close> and adds
  \<^verbatim>\<open>if (type && type !== 'all') { params.type = type.toUpperCase(); }\<close>, which throws a
  TypeError inside the \<^verbatim>\<open>try\<close> for a truthy \<^verbatim>\<open>type\<close> that is not a string. A method
  that passes no \<^verbatim>\<open>params\<close> has the empty list.
\<close>

fun opRequest :: "operation \<Rightarrow> js_error + get_request" where
  "opRequest GetCommunities = Inr (''/v1/communities'', [])"
| "opRequest (GetPost postId) = Inr (''/v1/post/'' @ postId, [])"
| "opRequest (GetNotifications page size') =
     Inr (''/v1/notification'', [(''page'', page), (''size'', size')])"
| "opRequest (GetPosts communityId page size' type) =
     (let params = [(''page'', page), (''size'', size'), (''sort'', JStr ''RECENT'')];
          path = ''/v1/community/'' @ communityId @ ''/posts''
      in if truthy type \<and> type \<noteq> JStr ''all''
         then (case type of
                 JStr t \<Rightarrow> Inr (path, params @ [(''type'', JStr (toUpperCase t))])
               | _ \<Rightarrow> Inl (Error ''type.toUpperCase is not a function'' None))
         else Inr (path, params))"
| "opRequest (GetArtists communityId) = Inr (''/v1/community/'' @ communityId @ ''/artists'', [])"
| "opRequest (GetMedia postId) = Inr (''/v1/post/'' @ postId @ ''/media'', [])"
| "opRequest (GetComments postId page size') =
     Inr (''/v1/post/'' @ postId @ ''/comments'',
          [(''page'', page), (''size'', size'), (''sort'', JStr ''RECENT'')])"

definition perform ::
  "env \<Rightarrow> operation \<Rightarrow> client \<Rightarrow> ((string + jsval) \<times> client) option" where
  "perform env op s = resourceCall env (opLabel op) (opRequest op) s"

definition getCommunities :: "env \<Rightarrow> client \<Rightarrow> ((string + jsval) \<times> client) option" where
  "getCommunities env s = perform env GetCommunities s"

definition getPost :: "env \<Rightarrow> string \<Rightarrow> client \<Rightarrow> ((string + jsval) \<times> client) option" where
  "getPost env postId s = perform env (GetPost postId) s"

definition getNotifications ::
  "env \<Rightarrow> jsval \<Rightarrow> jsval \<Rightarrow> client \<Rightarrow> ((string + jsval) \<times> client) option" where
  "getNotifications env page size' s =
     perform env (GetNotifications (dflt (JNum 1) page) (dflt (JNum 20) size')) s"

definition getPosts ::
  "env \<Rightarrow> string \<Rightarrow> jsval \<Rightarrow> jsval \<Rightarrow> jsval \<Rightarrow> client
     \<Rightarrow> ((string + jsval) \<times> client) option" where
  "getPosts env communityId page size' type s =
     perform env
       (GetPosts communityId (dflt (JNum 1) page) (dflt (JNum 20) size')
          (dflt (JStr ''all'') type)) s"

definition getArtists :: "env \<Rightarrow> string \<Rightarrow> client \<Rightarrow> ((string + jsval) \<times> client) option" where
  "getArtists env communityId s = perform env (GetArtists communityId) s"

definition getMedia :: "env \<Rightarrow> string \<Rightarrow> client \<Rightarrow> ((string + jsval) \<times> client) option" where
  "getMedia env postId s = perform env (GetMedia postId) s"

definition getComments ::
  "env \<Rightarrow> string \<Rightarrow> jsval \<Rightarrow> jsval \<Rightarrow> client \<Rightarrow> ((string + jsval) \<times> client) option" where
  "getComments env postId page size' s =
     perform env (GetComments postId (dflt (JNum 1) page) (dflt (JNum 20) size')) s"

subsection \<open>Describing upstream answers and traffic\<close>

text \<open>
  An answer is unauthorized when it is an error with status 401; a token exchange grants a
  token when it answers with data that carry a truthy \<^verbatim>\<open>access_token\<close>.
  \<open>retryTraffic path params\<close> holds of the calls a resource method may issue after its first
  GET: the same GET again (whatever the token), or a token exchange.
\<close>

definition unauthorized :: "js_error + jsval \<Rightarrow> bool" where
  "unauthorized r = (case r of Inl err \<Rightarrow> response_status err = Some 401 | Inr data \<Rightarrow> False)"

definition grantsToken :: "js_error + jsval \<Rightarrow> bool" where
  "grantsToken r =
     (case r of
        Inl err \<Rightarrow> False
      | Inr data \<Rightarrow> \<not> nullish data \<and> truthy (getProp data ''access_token''))"

fun isResourceGet :: "call \<Rightarrow> bool" where
  "isResourceGet (ResourceGet path params auth) = True"
| "isResourceGet c = False"

fun isTokenPost :: "call \<Rightarrow> bool" where
  "isTokenPost (TokenPost rt) = True"
| "isTokenPost c = False"

fun retryTraffic :: "string \<Rightarrow> (string \<times> jsval) list \<Rightarrow> call \<Rightarrow> bool" where
  "retryTraffic path params (ResourceGet p ps auth) = (p = path \<and> ps = params)"
| "retryTraffic path params (TokenPost rt) = True"
| "retryTraffic path params c = False"

subsection \<open>Example upstreams\<close>

text \<open>
  A scripted platform for the examples: resource GET number \<open>n\<close> is answered by
  \<open>resource n\<close> and token exchange number \<open>n\<close> by \<open>exchange n\<close> (counting from 0); the
  login initialisation succeeds and the login itself is rejected with status 401.
\<close>

definition scriptedEnv :: "(nat \<Rightarrow> js_error + jsval) \<Rightarrow> (nat \<Rightarrow> js_error + jsval) \<Rightarrow> env" where
  "scriptedEnv resource exchange =
     \<lparr>http = (\<lambda>h c. case c of
                ResourceGet path params auth \<Rightarrow> resource (length (filter isResourceGet h))
              | InitializeGet \<Rightarrow> Inr (JObj [])
              | LoginPost email password \<Rightarrow>
                  Inl (Error ''Request failed with status code 401'' (Some 401))
              | TokenPost rt \<Rightarrow> exchange (length (filter isTokenPost h))),
      rsa_encrypt = (\<lambda>password. Inr password)\<rparr>"

definition expired401 :: "js_error + jsval" where
  "expired401 = Inl (Error ''Request failed with status code 401'' (Some 401))"

definition refused400 :: "js_error + jsval" where
  "refused400 = Inl (Error ''Request failed with status code 400'' (Some 400))"

definition newTokens :: "js_error + jsval" where
  "newTokens = Inr (JObj [(''access_token'', JStr ''A2''), (''refresh_token'', JStr ''R2'')])"

definition loggedIn :: client where
  "loggedIn = \<lparr>token = JStr ''A1'', refreshToken = JStr ''R1'',
               authorization = Some (JStr ''A1''), calls = []\<rparr>"

section \<open>Properties of the cache key\<close>

text \<open>
  Claim C10. Cache key generation is not injective: the distinct pairs (a:b, c) and
  (a, b:c) are mapped to the same key a:b:c, so two requests in different namespaces can
  meet on one cache entry as soon as a namespace or an identifier contains the separator.
\<close>

theorem generateKey_not_injective:
  "generateKey ''a:b'' ''c'' = generateKey ''a'' ''b:c''
   \<and> (''a:b'', ''c'') \<noteq> (''a'', ''b:c'')
   \<and> \<not> inj (\<lambda>(namespace, identifier). generateKey namespace identifier)"
proof -
  have same: "generateKey ''a:b'' ''c'' = generateKey ''a'' ''b:c''"
    by (simp add: generateKey_def)
  have diff: "(''a:b'', ''c'') \<noteq> (''a'', ''b:c'')"
    by simp
  have "\<not> inj (\<lambda>(namespace, identifier). generateKey namespace identifier)"
  proof
    assume "inj (\<lambda>(namespace, identifier). generateKey namespace identifier)"
    from injD [OF this, of "(''a:b'', ''c'')" "(''a'', ''b:c'')"] same
    have "(''a:b'', ''c'') = (''a'', ''b:c'')"
      by simp
    with diff show False by simp
  qed
  with same diff show ?thesis by simp
qed

section \<open>Properties of the cache\<close>

lemma entries_Cache_set:
  "entries (snd (Cache_set now key val ttl c)) key =
     Some \<lparr>entry_value = val, insertedAt = now,
           ttlSeconds = (case ttl of None \<Rightarrow> DEFAULT_TTL | Some t \<Rightarrow> t)\<rparr>"
  by (simp add: Cache_set_def NodeCache_set_def)

lemma Cache_get_live:
  assumes "entries c key = Some e" and "\<not> expired now e"
  shows "fst (Cache_get now key c) = (if truthy (entry_value e) then entry_value e else JNull)"
  using assms by (simp add: Cache_get_def NodeCache_get_def)


text \<open>
  Claim C6, as the code has it. \<^verbatim>\<open>Cache.get\<close> tests the stored value for truthiness, so
  \<^verbatim>\<open>set(key, v)\<close> followed by \<^verbatim>\<open>get(key)\<close> within the default TTL of 300 seconds returns
  \<open>v\<close> when \<open>v\<close> is truthy, and \<^verbatim>\<open>null\<close> when \<open>v\<close> is falsy
  (\<^verbatim>\<open>0\<close>, the empty string, \<^verbatim>\<open>false\<close>, \<^verbatim>\<open>null\<close>, \<^verbatim>\<open>undefined\<close>).
\<close>

theorem Cache_roundtrip_truthy:
  assumes "now \<le> later" and "later \<le> now + 300 * 1000"
  shows "fst (Cache_get later key (snd (Cache_set now key v None c))) =
           (if truthy v then v else JNull)"
proof -
  let ?e = "\<lparr>entry_value = v, insertedAt = now, ttlSeconds = DEFAULT_TTL\<rparr>"
  have stored: "entries (snd (Cache_set now key v None c)) key = Some ?e"
    by (simp add: entries_Cache_set)
  have live: "\<not> expired later ?e"
    using assms by (simp add: expired_def DEFAULT_TTL_def)
  from Cache_get_live [OF stored live] show ?thesis by simp
qed

theorem Cache_roundtrip_truthy_witness:
  "fst (Cache_get 1000 ''posts:/api/x''
          (snd (Cache_set 1000 ''posts:/api/x'' (JObj [(''data'', JArr [])]) None (Cache_new None))))
     = JObj [(''data'', JArr [])]"
  using Cache_roundtrip_truthy
    [of 1000 1000 "''posts:/api/x''" "JObj [(''data'', JArr [])]" "Cache_new None"]
  by simp

text \<open>
  Claim C6 as stated (every value \<open>v\<close> comes back) fails for the number 0: the store holds
  it, and \<^verbatim>\<open>Cache.get\<close> reports \<^verbatim>\<open>null\<close>.
\<close>

theorem Cache_roundtrip_counterexample:
  "fst (Cache_get 1000 ''k'' (snd (Cache_set 1000 ''k'' (JNum 0) None (Cache_new None))))
     \<noteq> JNum 0"
  by (simp add: Cache_get_def Cache_set_def NodeCache_get_def NodeCache_set_def Cache_new_def
      expired_def DEFAULT_TTL_def)



section \<open>Properties of the cache middleware\<close>

lemma Cache_set_twice:
  "snd (Cache_set t key d' ttl (snd (Cache_set t key d ttl c))) = snd (Cache_set t key d' ttl c)"
  by (simp add: Cache_set_def NodeCache_set_def)

lemma foldl_overriddenCall:
  "snd (foldl (overriddenCall later key) (res, c) handler) =
     (case lastJson200 (statusCode res) handler of
        None \<Rightarrow> c
      | Some d \<Rightarrow> snd (Cache_set later key d None c))"
proof (induction handler arbitrary: res c)
  case Nil
  then show ?case by simp
next
  case (Cons call handler)
  show ?case
  proof (cases call)
    case (Status n)
    then show ?thesis using Cons.IH [of "res\<lparr>statusCode := n\<rparr>" c] by simp
  next
    case (Json d)
    then show ?thesis
      using Cons.IH [of "res\<lparr>bodies := bodies res @ [JsonBody d]\<rparr>"
                        "if statusCode res = 200 then snd (Cache_set later key d None c) else c"]
      by (simp add: Cache_set_twice split: option.splits)
  next
    case (Send b)
    then show ?thesis using Cons.IH [of "res\<lparr>bodies := bodies res @ [RawBody b]\<rparr>" c] by simp
  qed
qed

text \<open>
  Claim C9, as the code has it by design. On a hit, \<^verbatim>\<open>cacheMiddleware\<close> serves the cached
  value and writes nothing. On a miss, with a handler that answers through \<^verbatim>\<open>res.json\<close>,
  an entry is written for the request's key exactly when the handler calls \<^verbatim>\<open>res.json\<close>
  while the status code is 200: the entry holds that payload with the default TTL, and a
  response with another status code leaves the cache as the lookup left it.
\<close>

theorem cacheMiddleware_writes_on_json_at_200:
  "(truthy (fst (Cache_get now (generateKey namespace (requestTarget req)) c)) \<longrightarrow>
      cacheMiddleware namespace now later req handler (res, c) =
        (res\<lparr>bodies := bodies res @
            [JsonBody (fst (Cache_get now (generateKey namespace (requestTarget req)) c))]\<rparr>,
         snd (Cache_get now (generateKey namespace (requestTarget req)) c)))
   \<and> (\<not> truthy (fst (Cache_get now (generateKey namespace (requestTarget req)) c))
        \<and> list_all answersThroughJson handler \<longrightarrow>
      snd (cacheMiddleware namespace now later req handler (res, c)) =
        (case lastJson200 (statusCode res) handler of
           None \<Rightarrow> snd (Cache_get now (generateKey namespace (requestTarget req)) c)
         | Some d \<Rightarrow>
             snd (Cache_set later (generateKey namespace (requestTarget req)) d None
                    (snd (Cache_get now (generateKey namespace (requestTarget req)) c)))))"
  by (simp add: cacheMiddleware_def Let_def split_beta foldl_overriddenCall)

theorem cacheMiddleware_writes_on_json_at_200_witness:
  "cacheMiddleware ''communities'' 1000 1005
       \<lparr>originalUrl = Some ''/api/communities'', url = ''/communities''\<rparr>
       [Json (JArr [JStr ''TXT''])] (\<lparr>statusCode = 200, bodies = []\<rparr>, warmCache) =
     (\<lparr>statusCode = 200, bodies = [JsonBody (JArr [JStr ''BTS''])]\<rparr>, warmCache\<lparr>hits := 1\<rparr>)
   \<and> entries (snd (cacheMiddleware ''posts'' 0 5
       \<lparr>originalUrl = Some ''/api/communities/1/posts'', url = ''/communities/1/posts''\<rparr>
       [Json (JObj [(''data'', JArr [])])]
       (\<lparr>statusCode = 200, bodies = []\<rparr>, Cache_new None)))
     ''posts:/api/communities/1/posts'' =
     Some \<lparr>entry_value = JObj [(''data'', JArr [])], insertedAt = 5, ttlSeconds = 300\<rparr>
   \<and> entries (snd (cacheMiddleware ''posts'' 0 5
       \<lparr>originalUrl = Some ''/api/communities/1/posts'', url = ''/communities/1/posts''\<rparr>
       [Status 500, Json (JObj [(''error'', JStr ''Failed to get posts: Network Error'')])]
       (\<lparr>statusCode = 200, bodies = []\<rparr>, Cache_new None)))
     ''posts:/api/communities/1/posts'' = None"
proof -
  let ?creq = "\<lparr>originalUrl = Some ''/api/communities'', url = ''/communities''\<rparr>"
  let ?req = "\<lparr>originalUrl = Some ''/api/communities/1/posts'', url = ''/communities/1/posts''\<rparr>"
  let ?res = "\<lparr>statusCode = 200, bodies = []\<rparr>"
  have ckey: "generateKey ''communities'' (requestTarget ?creq) = ''communities:/api/communities''"
    by (simp add: generateKey_def requestTarget_def)
  have hit: "Cache_get 1000 ''communities:/api/communities'' warmCache =
      (JArr [JStr ''BTS''], warmCache\<lparr>hits := 1\<rparr>)"
    by (simp add: Cache_get_def NodeCache_get_def warmCache_def Cache_set_def NodeCache_set_def
        Cache_new_def expired_def DEFAULT_TTL_def)
  have key: "generateKey ''posts'' (requestTarget ?req) = ''posts:/api/communities/1/posts''"
    by (simp add: generateKey_def requestTarget_def)
  have miss: "Cache_get 0 ''posts:/api/communities/1/posts'' (Cache_new None) =
      (JNull, (Cache_new None)\<lparr>misses := 1\<rparr>)"
    by (simp add: Cache_get_def NodeCache_get_def Cache_new_def)
  have empty: "entries (Cache_new None) ''posts:/api/communities/1/posts'' = None"
    by (simp add: Cache_new_def)
  have a: "cacheMiddleware ''communities'' 1000 1005 ?creq [Json (JArr [JStr ''TXT''])]
             (?res, warmCache) =
           (\<lparr>statusCode = 200, bodies = [JsonBody (JArr [JStr ''BTS''])]\<rparr>, warmCache\<lparr>hits := 1\<rparr>)"
    using cacheMiddleware_writes_on_json_at_200 [of 1000 "''communities''" ?creq warmCache 1005 "[Json (JArr [JStr ''TXT''])]" ?res]
    by (simp add: ckey hit)
  have b: "entries (snd (cacheMiddleware ''posts'' 0 5 ?req [Json (JObj [(''data'', JArr [])])]
             (?res, Cache_new None))) ''posts:/api/communities/1/posts'' =
           Some \<lparr>entry_value = JObj [(''data'', JArr [])], insertedAt = 5, ttlSeconds = 300\<rparr>"
    using cacheMiddleware_writes_on_json_at_200 [of 0 "''posts''" ?req "Cache_new None" 5 "[Json (JObj [(''data'', JArr [])])]" ?res]
    by (simp add: key miss entries_Cache_set DEFAULT_TTL_def)
  have c: "entries (snd (cacheMiddleware ''posts'' 0 5 ?req
             [Status 500, Json (JObj [(''error'', JStr ''Failed to get posts: Network Error'')])]
             (?res, Cache_new None))) ''posts:/api/communities/1/posts'' = None"
    using cacheMiddleware_writes_on_json_at_200 [of 0 "''posts''" ?req "Cache_new None" 5
          "[Status 500, Json (JObj [(''error'', JStr ''Failed to get posts: Network Error'')])]" ?res]
    by (simp add: key miss empty)
  from a b c show ?thesis by simp
qed

text \<open>
  Claim C9 as stated (an entry is written if and only if the response completes with status
  code 200) fails on a hit: the response completes with status code 200, and no entry is
  written. The entry of the key is still the one stored at time 0, and its expiry clock has
  not been restarted by the request at time 1000.
\<close>

theorem cacheMiddleware_hit_counterexample:
  "(let (res, c) = cacheMiddleware ''communities'' 1000 1005
        \<lparr>originalUrl = Some ''/api/communities'', url = ''/communities''\<rparr>
        [Json (JArr [JStr ''TXT''])] (\<lparr>statusCode = 200, bodies = []\<rparr>, warmCache)
    in statusCode res = 200 \<and> bodies res = [JsonBody (JArr [JStr ''BTS''])]
       \<and> entries c = entries warmCache
       \<and> entries c ''communities:/api/communities'' =
           Some \<lparr>entry_value = JArr [JStr ''BTS''], insertedAt = 0, ttlSeconds = 300\<rparr>)"
  by (simp add: cacheMiddleware_def Let_def split_beta Cache_get_def NodeCache_get_def
      Cache_set_def NodeCache_set_def warmCache_def
      Cache_new_def generateKey_def requestTarget_def expired_def DEFAULT_TTL_def)

text \<open>
  The RSS and the widget routes are wrapped in \<^verbatim>\<open>cacheMiddleware('rss')\<close> and
  \<^verbatim>\<open>cacheMiddleware('widget')\<close> and answer with \<^verbatim>\<open>res.send\<close>, which the middleware
  does not intercept: their response completes with status code 200 and is never cached,
  unlike the responses of the JSON routes.
\<close>

lemma rss_response_is_not_cached:
  "(let (res, c) = cacheMiddleware ''rss'' 0 5
        \<lparr>originalUrl = Some ''/api/communities/1/rss'', url = ''/communities/1/rss''\<rparr>
        [Send ''<rss/>''] (\<lparr>statusCode = 200, bodies = []\<rparr>, Cache_new None)
    in statusCode res = 200 \<and> bodies res = [RawBody ''<rss/>'']
       \<and> entries c ''rss:/api/communities/1/rss'' = None)"
  by (simp add: cacheMiddleware_def Let_def split_beta Cache_get_def NodeCache_get_def
      Cache_new_def generateKey_def requestTarget_def)

section \<open>Properties of the client\<close>

subsection \<open>One step of a resource method\<close>

lemma attempt_get:
  "attempt env (Inr (path, params)) s =
     (http env (calls s) (ResourceGet path params (authorization s)),
      s\<lparr>calls := calls s @ [ResourceGet path params (authorization s)]\<rparr>)"
  by (simp add: attempt_def issue_def)

lemma resourceCall_success:
  assumes "attempt env built s = (Inr data, s1)"
  shows "resourceCall env label built s = Some (Inr data, s1)"
  using assms by (subst resourceCall.simps) simp

lemma resourceCall_other_failure:
  assumes "attempt env built s = (Inl err, s1)" and "response_status err \<noteq> Some 401"
  shows "resourceCall env label built s = Some (Inl (label @ message err), s1)"
  using assms by (subst resourceCall.simps) simp

lemma resourceCall_401:
  assumes "attempt env built s = (Inl err, s1)" and "response_status err = Some 401"
    and "refreshAccessToken env s1 = (ok, s2)"
  shows "resourceCall env label built s =
           (if ok then resourceCall env label built s2 else Some (Inl (label @ message err), s2))"
  using assms by (subst resourceCall.simps) simp

lemma perform_other_failure:
  assumes req: "opRequest op = Inr (path, params)"
    and failed: "http env (calls s) (ResourceGet path params (authorization s)) = Inl err"
    and other: "response_status err \<noteq> Some 401"
  shows "perform env op s =
           Some (Inl (opLabel op @ message err),
                 s\<lparr>calls := calls s @ [ResourceGet path params (authorization s)]\<rparr>)"
proof -
  have "attempt env (opRequest op) s =
          (Inl err, s\<lparr>calls := calls s @ [ResourceGet path params (authorization s)]\<rparr>)"
    using req failed by (simp add: attempt_get)
  from resourceCall_other_failure [OF this other] show ?thesis
    by (simp add: perform_def)
qed

lemma perform_401:
  assumes "opRequest op = Inr (path, params)"
    and "http env (calls s) (ResourceGet path params (authorization s)) = Inl err"
    and "response_status err = Some 401"
    and "refreshAccessToken env
           (s\<lparr>calls := calls s @ [ResourceGet path params (authorization s)]\<rparr>) = (ok, s2)"
  shows "perform env op s =
           (if ok then perform env op s2 else Some (Inl (opLabel op @ message err), s2))"
proof -
  have "attempt env (opRequest op) s =
          (Inl err, s\<lparr>calls := calls s @ [ResourceGet path params (authorization s)]\<rparr>)"
    using assms(1,2) by (simp add: attempt_get)
  from resourceCall_401 [OF this assms(3,4)] show ?thesis
    by (simp add: perform_def)
qed

subsection \<open>The token refresh\<close>

lemma refreshAccessToken_True:
  assumes "refreshAccessToken env s = (True, s')"
  shows "calls s' = calls s @ [TokenPost (refreshToken s)] \<and> truthy (refreshToken s')
         \<and> truthy (refreshToken s)"
  using assms
  by (auto simp: refreshAccessToken_def issue_def split: if_splits sum.splits)

lemma refreshAccessToken_granted:
  assumes "truthy (refreshToken s)"
    and "grantsToken (http env (calls s) (TokenPost (refreshToken s)))"
  shows "\<exists>s'. refreshAccessToken env s = (True, s') \<and> truthy (refreshToken s')"
  using assms
  by (auto simp: refreshAccessToken_def issue_def grantsToken_def split: sum.splits)

lemma refreshAccessToken_calls:
  "truthy (refreshToken s) \<Longrightarrow>
     calls (snd (refreshAccessToken env s)) = calls s @ [TokenPost (refreshToken s)]"
  by (simp add: refreshAccessToken_def issue_def split: sum.splits)

lemma refreshAccessToken_traffic:
  "\<exists>t. calls (snd (refreshAccessToken env s)) = calls s @ t \<and> list_all (retryTraffic path params) t"
proof (cases "truthy (refreshToken s)")
  case True
  from refreshAccessToken_calls [OF this, of env] show ?thesis by simp
next
  case False
  then show ?thesis by (simp add: refreshAccessToken_def)
qed

subsection \<open>A method that never returns\<close>

lemma resourceCall_never_returns_aux:
  assumes "resourceCall env label built s = Some y"
  shows "(\<forall>h path params a. unauthorized (http env h (ResourceGet path params a))) \<longrightarrow>
     (\<forall>h rt. grantsToken (http env h (TokenPost rt))) \<longrightarrow>
     (\<exists>path params. built = Inr (path, params)) \<longrightarrow>
     truthy (refreshToken s) \<longrightarrow> False"
  using assms
proof (induct rule: resourceCall.raw_induct [rotated 1, consumes 1, case_names step])
  case (step f env label built s y)
  note IH = step(1) and body = step(2)
  show ?case
  proof (intro impI)
    assume always401: "\<forall>h path params a. unauthorized (http env h (ResourceGet path params a))"
      and alwaysGranted: "\<forall>h rt. grantsToken (http env h (TokenPost rt))"
      and built: "\<exists>path params. built = Inr (path, params)"
      and rt: "truthy (refreshToken s)"
    from built obtain path params where b: "built = Inr (path, params)" by blast
    let ?g = "ResourceGet path params (authorization s)"
    let ?s1 = "s\<lparr>calls := calls s @ [?g]\<rparr>"
    from always401 have "unauthorized (http env (calls s) ?g)" by blast
    then obtain err where err: "http env (calls s) ?g = Inl err" "response_status err = Some 401"
      by (auto simp: unauthorized_def split: sum.splits)
    have att: "attempt env built s = (Inl err, ?s1)"
      using b err by (simp add: attempt_get)
    have "truthy (refreshToken ?s1)" using rt by simp
    moreover from alwaysGranted
    have "grantsToken (http env (calls ?s1) (TokenPost (refreshToken ?s1)))" by blast
    ultimately obtain s2 where s2: "refreshAccessToken env ?s1 = (True, s2)" "truthy (refreshToken s2)"
      using refreshAccessToken_granted by blast
    from body att err s2 have "f env label built s2 = Some y"
      by simp
    from IH [OF this] always401 alwaysGranted built s2(2) show False by blast
  qed
qed

lemma resourceCall_never_returns:
  assumes "\<forall>h path params a. unauthorized (http env h (ResourceGet path params a))"
    and "\<forall>h rt. grantsToken (http env h (TokenPost rt))"
    and "truthy (refreshToken s)"
  shows "resourceCall env label (Inr (path, params)) s = None"
proof (cases "resourceCall env label (Inr (path, params)) s")
  case None
  then show ?thesis .
next
  case (Some y)
  from resourceCall_never_returns_aux [OF this] assms show ?thesis by blast
qed

lemma perform_never_returns:
  assumes "\<forall>h path params a. unauthorized (http env h (ResourceGet path params a))"
    and "\<forall>h rt. grantsToken (http env h (TokenPost rt))"
    and "truthy (refreshToken s)"
    and "opRequest op = Inr (path, params)"
  shows "perform env op s = None"
  using resourceCall_never_returns [OF assms(1,2,3)] assms(4) by (simp add: perform_def)

subsection \<open>The calls a method issues\<close>

lemma resourceCall_traffic_aux:
  assumes "resourceCall env label built s = Some y"
  shows "\<forall>path params. built = Inr (path, params) \<longrightarrow>
           (\<exists>rest. calls (snd y) = calls s @ ResourceGet path params (authorization s) # rest
                 \<and> list_all (retryTraffic path params) rest)"
  using assms
proof (induct rule: resourceCall.raw_induct [rotated 1, consumes 1, case_names step])
  case (step f env label built s y)
  note IH = step(1) and body = step(2)
  show ?case
  proof (intro allI impI)
    fix path params
    assume b: "built = Inr (path, params)"
    let ?g = "ResourceGet path params (authorization s)"
    let ?s1 = "s\<lparr>calls := calls s @ [?g]\<rparr>"
    have att: "attempt env built s = (http env (calls s) ?g, ?s1)"
      using b by (simp add: attempt_get)
    show "\<exists>rest. calls (snd y) = calls s @ ?g # rest \<and> list_all (retryTraffic path params) rest"
    proof (cases "http env (calls s) ?g")
      case (Inr data)
      with body att have "y = (Inr data, ?s1)" by simp
      then show ?thesis by simp
    next
      case (Inl err)
      show ?thesis
      proof (cases "response_status err = Some 401")
        case False
        with body att Inl have "y = (Inl (label @ message err), ?s1)" by simp
        then show ?thesis by simp
      next
        case True
        obtain ok s2 where r: "refreshAccessToken env ?s1 = (ok, s2)"
          by (cases "refreshAccessToken env ?s1")
        from refreshAccessToken_traffic [of env ?s1 path params] r
        obtain t where t: "calls s2 = calls s @ ?g # t" "list_all (retryTraffic path params) t"
          by auto
        show ?thesis
        proof (cases ok)
          case False
          with body att Inl True r have "y = (Inl (label @ message err), s2)" by simp
          with t show ?thesis by simp
        next
          case ok: True
          with body att Inl True r have "f env label built s2 = Some y" by simp
          from IH [OF this] b
          obtain rest where rest:
            "calls (snd y) = calls s2 @ ResourceGet path params (authorization s2) # rest"
            "list_all (retryTraffic path params) rest"
            by blast
          from t rest
          have "calls (snd y) = calls s @ ?g # (t @ ResourceGet path params (authorization s2) # rest)
                \<and> list_all (retryTraffic path params)
                     (t @ ResourceGet path params (authorization s2) # rest)"
            by simp
          then show ?thesis by blast
        qed
      qed
    qed
  qed
qed

lemma perform_traffic:
  assumes "perform env op s = Some (r, s')" and "opRequest op = Inr (path, params)"
  shows "\<exists>rest. calls s' = calls s @ ResourceGet path params (authorization s) # rest
               \<and> list_all (retryTraffic path params) rest"
  using resourceCall_traffic_aux [of env "opLabel op" "opRequest op" s "(r, s')"] assms
  by (simp add: perform_def)

lemma perform_single_call:
  assumes "opRequest op = Inr (path, params)"
    and "\<not> unauthorized (http env (calls s) (ResourceGet path params (authorization s)))"
  shows "\<exists>r. perform env op s =
           Some (r, s\<lparr>calls := calls s @ [ResourceGet path params (authorization s)]\<rparr>)"
proof (cases "http env (calls s) (ResourceGet path params (authorization s))")
  case (Inl err)
  with assms(2) have "response_status err \<noteq> Some 401" by (simp add: unauthorized_def)
  from perform_other_failure [OF assms(1) Inl this] show ?thesis by blast
next
  case (Inr data)
  with assms(1) have "attempt env (opRequest op) s =
      (Inr data, s\<lparr>calls := calls s @ [ResourceGet path params (authorization s)]\<rparr>)"
    by (simp add: attempt_get)
  from resourceCall_success [OF this] show ?thesis by (simp add: perform_def)
qed

lemma toUpperCase_artist: "toUpperCase ''artist'' = ''ARTIST''"
  by code_simp

lemma opRequest_posts_default:
  "opRequest (GetPosts communityId (dflt (JNum 1) JUndefined) (dflt (JNum 20) JUndefined)
                (dflt (JStr ''all'') JUndefined)) =
     Inr (''/v1/community/'' @ communityId @ ''/posts'',
          [(''page'', JNum 1), (''size'', JNum 20), (''sort'', JStr ''RECENT'')])"
  by (simp add: dflt_def)

lemma opRequest_posts_artist:
  "opRequest (GetPosts communityId (dflt (JNum 1) (JNum 1)) (dflt (JNum 20) (JNum 20))
                (dflt (JStr ''all'') (JStr ''artist''))) =
     Inr (''/v1/community/'' @ communityId @ ''/posts'',
          [(''page'', JNum 1), (''size'', JNum 20), (''sort'', JStr ''RECENT''),
           (''type'', JStr ''ARTIST'')])"
  by (simp add: dflt_def toUpperCase_artist)

subsection \<open>The retry after a 401\<close>

text \<open>
  Claim C1, as the code has it. A resource method that is answered 401 refreshes the
  token and, when the refresh succeeds, calls itself; the new call treats a 401 as the first
  one did. So when the upstream answers 401 to the first attempt and to the retry and the
  first refresh succeeds, a second token exchange is issued (two GETs and two token exchanges
  so far): if that refresh fails the method throws the error that wraps the second 401, and
  if it succeeds the method calls itself again. When the upstream answers 401 to every GET
  and grants a token at every exchange, the method never returns.
\<close>

theorem second_401_triggers_second_refresh:
  "(opRequest op = Inr (path, params)
      \<and> http env (calls s) (ResourceGet path params (authorization s)) = Inl err1
      \<and> response_status err1 = Some 401
      \<and> refreshAccessToken env
           (s\<lparr>calls := calls s @ [ResourceGet path params (authorization s)]\<rparr>) = (True, s2)
      \<and> http env (calls s2) (ResourceGet path params (authorization s2)) = Inl err2
      \<and> response_status err2 = Some 401
      \<and> refreshAccessToken env
           (s2\<lparr>calls := calls s2 @ [ResourceGet path params (authorization s2)]\<rparr>) = (ok, s4)
    \<longrightarrow> perform env op s =
          (if ok then perform env op s4 else Some (Inl (opLabel op @ message err2), s4))
        \<and> calls s4 = calls s @ [ResourceGet path params (authorization s),
                                 TokenPost (refreshToken s),
                                 ResourceGet path params (authorization s2),
                                 TokenPost (refreshToken s2)])
   \<and> ((\<forall>h path params a. unauthorized (http env h (ResourceGet path params a)))
      \<and> (\<forall>h rt. grantsToken (http env h (TokenPost rt)))
      \<and> truthy (refreshToken s)
      \<and> opRequest op = Inr (path, params)
    \<longrightarrow> perform env op s = None)"
proof (intro conjI impI)
  assume h: "opRequest op = Inr (path, params)
      \<and> http env (calls s) (ResourceGet path params (authorization s)) = Inl err1
      \<and> response_status err1 = Some 401
      \<and> refreshAccessToken env
           (s\<lparr>calls := calls s @ [ResourceGet path params (authorization s)]\<rparr>) = (True, s2)
      \<and> http env (calls s2) (ResourceGet path params (authorization s2)) = Inl err2
      \<and> response_status err2 = Some 401
      \<and> refreshAccessToken env
           (s2\<lparr>calls := calls s2 @ [ResourceGet path params (authorization s2)]\<rparr>) = (ok, s4)"
  let ?g1 = "ResourceGet path params (authorization s)"
  let ?g2 = "ResourceGet path params (authorization s2)"
  from h have req: "opRequest op = Inr (path, params)"
    and first: "http env (calls s) ?g1 = Inl err1" and u1: "response_status err1 = Some 401"
    and r1: "refreshAccessToken env (s\<lparr>calls := calls s @ [?g1]\<rparr>) = (True, s2)"
    and second: "http env (calls s2) ?g2 = Inl err2" and u2: "response_status err2 = Some 401"
    and r2: "refreshAccessToken env (s2\<lparr>calls := calls s2 @ [?g2]\<rparr>) = (ok, s4)"
    by simp_all
  from perform_401 [OF req first u1 r1] have "perform env op s = perform env op s2"
    by simp
  with perform_401 [OF req second u2 r2]
  show "perform env op s =
          (if ok then perform env op s4 else Some (Inl (opLabel op @ message err2), s4))"
    by simp
  from refreshAccessToken_True [OF r1]
  have c2: "calls s2 = calls s @ [?g1, TokenPost (refreshToken s)]" and t2: "truthy (refreshToken s2)"
    by simp_all
  from t2 have "truthy (refreshToken (s2\<lparr>calls := calls s2 @ [?g2]\<rparr>))" by simp
  from refreshAccessToken_calls [OF this, of env] r2
  have "calls s4 = calls s2 @ [?g2, TokenPost (refreshToken s2)]" by simp
  with c2 show "calls s4 = calls s @ [?g1, TokenPost (refreshToken s), ?g2, TokenPost (refreshToken s2)]"
    by simp
next
  assume "(\<forall>h path params a. unauthorized (http env h (ResourceGet path params a)))
      \<and> (\<forall>h rt. grantsToken (http env h (TokenPost rt)))
      \<and> truthy (refreshToken s)
      \<and> opRequest op = Inr (path, params)"
  then show "perform env op s = None"
    using perform_never_returns [of env s op path params] by blast
qed

theorem second_401_triggers_second_refresh_witness:
  "perform (scriptedEnv (\<lambda>n. expired401) (\<lambda>n. if n = 0 then newTokens else refused400))
       GetCommunities loggedIn =
     Some (Inl ''Failed to get communities: Request failed with status code 401'',
           \<lparr>token = JStr ''A2'', refreshToken = JStr ''R2'', authorization = Some (JStr ''A2''),
            calls = [ResourceGet ''/v1/communities'' [] (Some (JStr ''A1'')), TokenPost (JStr ''R1''),
                     ResourceGet ''/v1/communities'' [] (Some (JStr ''A2'')), TokenPost (JStr ''R2'')]\<rparr>)
   \<and> perform (scriptedEnv (\<lambda>n. expired401) (\<lambda>n. newTokens)) GetCommunities loggedIn = None"
proof -
  let ?envA = "scriptedEnv (\<lambda>n. expired401) (\<lambda>n. if n = 0 then newTokens else refused400)"
  let ?envB = "scriptedEnv (\<lambda>n. expired401) (\<lambda>n. newTokens)"
  let ?g1 = "ResourceGet ''/v1/communities'' [] (Some (JStr ''A1''))"
  let ?g2 = "ResourceGet ''/v1/communities'' [] (Some (JStr ''A2''))"
  let ?e = "Error ''Request failed with status code 401'' (Some 401)"
  let ?s2 = "\<lparr>token = JStr ''A2'', refreshToken = JStr ''R2'', authorization = Some (JStr ''A2''),
             calls = [?g1, TokenPost (JStr ''R1'')]\<rparr>"
  let ?s4 = "\<lparr>token = JStr ''A2'', refreshToken = JStr ''R2'', authorization = Some (JStr ''A2''),
             calls = [?g1, TokenPost (JStr ''R1''), ?g2, TokenPost (JStr ''R2'')]\<rparr>"
  have a: "perform ?envA GetCommunities loggedIn =
             Some (Inl ''Failed to get communities: Request failed with status code 401'', ?s4)"
    using second_401_triggers_second_refresh
      [where op = GetCommunities and path = "''/v1/communities''" and params = "[]"
         and env = ?envA and s = loggedIn and ?err1.0 = ?e and ?s2.0 = ?s2 and ?err2.0 = ?e
         and ok = False and ?s4.0 = ?s4]
    by (simp add: scriptedEnv_def expired401_def newTokens_def refused400_def loggedIn_def
        refreshAccessToken_def issue_def)
  have b: "perform ?envB GetCommunities loggedIn = None"
    using second_401_triggers_second_refresh
      [where op = GetCommunities and path = "''/v1/communities''" and params = "[]"
         and env = ?envB and s = loggedIn]
    by (simp add: scriptedEnv_def expired401_def newTokens_def loggedIn_def
        unauthorized_def grantsToken_def)
  from a b show ?thesis by simp
qed

text \<open>
  Claim C1 as stated (exactly two GETs and one refresh, and the second 401 as the result)
  fails when the upstream answers 401 to the first two GETs of \<^verbatim>\<open>getCommunities\<close> and
  the refresh succeeds each time: the method issues a third GET after a second refresh and
  returns the payload of the third answer.
\<close>

theorem retry_bound_counterexample:
  "http (scriptedEnv (\<lambda>n. if n < 2 then expired401 else Inr (JArr [])) (\<lambda>n. newTokens))
        [] (ResourceGet ''/v1/communities'' [] (Some (JStr ''A1''))) = expired401
   \<and> http (scriptedEnv (\<lambda>n. if n < 2 then expired401 else Inr (JArr [])) (\<lambda>n. newTokens))
        [ResourceGet ''/v1/communities'' [] (Some (JStr ''A1'')), TokenPost (JStr ''R1'')]
        (ResourceGet ''/v1/communities'' [] (Some (JStr ''A2''))) = expired401
   \<and> perform (scriptedEnv (\<lambda>n. if n < 2 then expired401 else Inr (JArr [])) (\<lambda>n. newTokens))
        GetCommunities loggedIn =
      Some (Inr (JArr []),
        \<lparr>token = JStr ''A2'', refreshToken = JStr ''R2'', authorization = Some (JStr ''A2''),
         calls = [ResourceGet ''/v1/communities'' [] (Some (JStr ''A1'')), TokenPost (JStr ''R1''),
                  ResourceGet ''/v1/communities'' [] (Some (JStr ''A2'')), TokenPost (JStr ''R2''),
                  ResourceGet ''/v1/communities'' [] (Some (JStr ''A2''))]\<rparr>)"
  by (simp add: perform_def resourceCall.simps attempt_def issue_def scriptedEnv_def
      expired401_def newTokens_def loggedIn_def refreshAccessToken_def)

text \<open>
  Claim C2. For every resource operation: when the upstream answers 401 to the first GET,
  the refresh succeeds, and the upstream answers the second GET with a payload, the
  operation returns that payload, and the calls it has issued are exactly the GET, one
  token exchange and the GET again.
\<close>

theorem retry_after_401_returns_payload:
  assumes req: "opRequest op = Inr (path, params)"
    and first: "http env (calls s) (ResourceGet path params (authorization s)) = Inl err"
    and unauth: "response_status err = Some 401"
    and refresh: "refreshAccessToken env
            (s\<lparr>calls := calls s @ [ResourceGet path params (authorization s)]\<rparr>) = (True, s2)"
    and second: "http env (calls s2) (ResourceGet path params (authorization s2)) = Inr payload"
  shows "perform env op s =
           Some (Inr payload, s2\<lparr>calls := calls s2 @ [ResourceGet path params (authorization s2)]\<rparr>)
         \<and> calls s2 @ [ResourceGet path params (authorization s2)] =
             calls s @ [ResourceGet path params (authorization s),
                        TokenPost (refreshToken s),
                        ResourceGet path params (authorization s2)]"
proof -
  let ?g1 = "ResourceGet path params (authorization s)"
  let ?s1 = "s\<lparr>calls := calls s @ [?g1]\<rparr>"
  let ?g2 = "ResourceGet path params (authorization s2)"
  have a1: "attempt env (opRequest op) s = (Inl err, ?s1)"
    using req first by (simp add: attempt_get)
  have a2: "attempt env (opRequest op) s2 = (Inr payload, s2\<lparr>calls := calls s2 @ [?g2]\<rparr>)"
    using req second by (simp add: attempt_get)
  have "perform env op s = resourceCall env (opLabel op) (opRequest op) s2"
    unfolding perform_def using resourceCall_401 [OF a1 unauth refresh] by simp
  also have "\<dots> = Some (Inr payload, s2\<lparr>calls := calls s2 @ [?g2]\<rparr>)"
    using a2 by (rule resourceCall_success)
  finally have result: "perform env op s = Some (Inr payload, s2\<lparr>calls := calls s2 @ [?g2]\<rparr>)" .
  from refreshAccessToken_True [OF refresh]
  have "calls s2 = calls s @ [?g1, TokenPost (refreshToken s)]"
    by simp
  with result show ?thesis by simp
qed

theorem retry_after_401_returns_payload_witness:
  "perform (scriptedEnv (\<lambda>n. if n = 0 then expired401 else Inr (JArr [JStr ''BTS''])) (\<lambda>n. newTokens))
       GetCommunities loggedIn =
     Some (Inr (JArr [JStr ''BTS'']),
           \<lparr>token = JStr ''A2'', refreshToken = JStr ''R2'', authorization = Some (JStr ''A2''),
            calls = [ResourceGet ''/v1/communities'' [] (Some (JStr ''A1'')), TokenPost (JStr ''R1''),
                     ResourceGet ''/v1/communities'' [] (Some (JStr ''A2''))]\<rparr>)"
proof -
  let ?env = "scriptedEnv (\<lambda>n. if n = 0 then expired401 else Inr (JArr [JStr ''BTS''])) (\<lambda>n. newTokens)"
  let ?g1 = "ResourceGet ''/v1/communities'' [] (authorization loggedIn)"
  let ?e = "Error ''Request failed with status code 401'' (Some 401)"
  let ?s2 = "\<lparr>token = JStr ''A2'', refreshToken = JStr ''R2'', authorization = Some (JStr ''A2''),
             calls = [ResourceGet ''/v1/communities'' [] (Some (JStr ''A1'')),
                      TokenPost (JStr ''R1'')]\<rparr>"
  have req: "opRequest GetCommunities = Inr (''/v1/communities'', [])"
    by simp
  have first: "http ?env (calls loggedIn) ?g1 = Inl ?e"
    by (simp add: scriptedEnv_def expired401_def loggedIn_def)
  have unauth: "response_status ?e = Some 401"
    by simp
  have refresh: "refreshAccessToken ?env (loggedIn\<lparr>calls := calls loggedIn @ [?g1]\<rparr>) = (True, ?s2)"
    by (simp add: scriptedEnv_def newTokens_def loggedIn_def refreshAccessToken_def issue_def)
  have second: "http ?env (calls ?s2) (ResourceGet ''/v1/communities'' [] (authorization ?s2)) =
      Inr (JArr [JStr ''BTS''])"
    by (simp add: scriptedEnv_def)
  from retry_after_401_returns_payload [OF req first unauth refresh second]
  show ?thesis by simp
qed

subsection \<open>Failures other than 401\<close>

text \<open>
  Claim C5. For each of the seven resource operations and every failure of its GET whose
  status is not 401 (another status, or no response at all: a network failure or a timeout),
  the operation throws an error whose message is the operation's own context followed by the
  message of the cause: \<^verbatim>\<open>Failed to get communities: \<close>, \<^verbatim>\<open>Failed to get post: \<close>,
  \<^verbatim>\<open>Failed to get notifications: \<close>, \<^verbatim>\<open>Failed to get posts: \<close>,
  \<^verbatim>\<open>Failed to get artists: \<close>, \<^verbatim>\<open>Failed to get media: \<close> and
  \<^verbatim>\<open>Failed to get comments: \<close> (the source writes them with a capital F). The GET is the
  only call issued, so there is no refresh and no retry, and the tokens are untouched.
\<close>

theorem other_failure_is_wrapped_and_not_retried:
  assumes other: "response_status err \<noteq> Some 401"
  shows
  "(http env (calls s) (ResourceGet ''/v1/communities'' [] (authorization s)) = Inl err \<longrightarrow>
      getCommunities env s =
        Some (Inl (''Failed to get communities: '' @ message err),
              s\<lparr>calls := calls s @ [ResourceGet ''/v1/communities'' [] (authorization s)]\<rparr>))
   \<and> (http env (calls s) (ResourceGet (''/v1/post/'' @ postId) [] (authorization s)) = Inl err \<longrightarrow>
      getPost env postId s =
        Some (Inl (''Failed to get post: '' @ message err),
              s\<lparr>calls := calls s @ [ResourceGet (''/v1/post/'' @ postId) [] (authorization s)]\<rparr>))
   \<and> (http env (calls s)
         (ResourceGet ''/v1/notification''
            [(''page'', dflt (JNum 1) page), (''size'', dflt (JNum 20) size')]
            (authorization s)) = Inl err \<longrightarrow>
      getNotifications env page size' s =
        Some (Inl (''Failed to get notifications: '' @ message err),
              s\<lparr>calls := calls s @
                 [ResourceGet ''/v1/notification''
                    [(''page'', dflt (JNum 1) page), (''size'', dflt (JNum 20) size')]
                    (authorization s)]\<rparr>))
   \<and> (opRequest (GetPosts communityId (dflt (JNum 1) page) (dflt (JNum 20) size')
                    (dflt (JStr ''all'') type)) =
          Inr (''/v1/community/'' @ communityId @ ''/posts'', params)
       \<and> http env (calls s)
           (ResourceGet (''/v1/community/'' @ communityId @ ''/posts'') params (authorization s)) =
          Inl err \<longrightarrow>
      getPosts env communityId page size' type s =
        Some (Inl (''Failed to get posts: '' @ message err),
              s\<lparr>calls := calls s @
                 [ResourceGet (''/v1/community/'' @ communityId @ ''/posts'') params
                    (authorization s)]\<rparr>))
   \<and> (http env (calls s)
         (ResourceGet (''/v1/community/'' @ communityId @ ''/artists'') [] (authorization s)) =
          Inl err \<longrightarrow>
      getArtists env communityId s =
        Some (Inl (''Failed to get artists: '' @ message err),
              s\<lparr>calls := calls s @
                 [ResourceGet (''/v1/community/'' @ communityId @ ''/artists'') []
                    (authorization s)]\<rparr>))
   \<and> (http env (calls s) (ResourceGet (''/v1/post/'' @ postId @ ''/media'') [] (authorization s)) =
          Inl err \<longrightarrow>
      getMedia env postId s =
        Some (Inl (''Failed to get media: '' @ message err),
              s\<lparr>calls := calls s @
                 [ResourceGet (''/v1/post/'' @ postId @ ''/media'') [] (authorization s)]\<rparr>))
   \<and> (http env (calls s)
         (ResourceGet (''/v1/post/'' @ postId @ ''/comments'')
            [(''page'', dflt (JNum 1) page), (''size'', dflt (JNum 20) size'),
             (''sort'', JStr ''RECENT'')]
            (authorization s)) = Inl err \<longrightarrow>
      getComments env postId page size' s =
        Some (Inl (''Failed to get comments: '' @ message err),
              s\<lparr>calls := calls s @
                 [ResourceGet (''/v1/post/'' @ postId @ ''/comments'')
                    [(''page'', dflt (JNum 1) page), (''size'', dflt (JNum 20) size'),
                     (''sort'', JStr ''RECENT'')]
                    (authorization s)]\<rparr>))"
proof (intro conjI impI)
  assume "http env (calls s) (ResourceGet ''/v1/communities'' [] (authorization s)) = Inl err"
  from perform_other_failure [OF _ this other, of GetCommunities]
  show "getCommunities env s =
        Some (Inl (''Failed to get communities: '' @ message err),
              s\<lparr>calls := calls s @ [ResourceGet ''/v1/communities'' [] (authorization s)]\<rparr>)"
    by (simp add: getCommunities_def)
next
  assume "http env (calls s) (ResourceGet (''/v1/post/'' @ postId) [] (authorization s)) = Inl err"
  from perform_other_failure [OF _ this other, of "GetPost postId"]
  show "getPost env postId s =
        Some (Inl (''Failed to get post: '' @ message err),
              s\<lparr>calls := calls s @ [ResourceGet (''/v1/post/'' @ postId) [] (authorization s)]\<rparr>)"
    by (simp add: getPost_def)
next
  assume "http env (calls s)
         (ResourceGet ''/v1/notification''
            [(''page'', dflt (JNum 1) page), (''size'', dflt (JNum 20) size')]
            (authorization s)) = Inl err"
  from perform_other_failure
    [OF _ this other, of "GetNotifications (dflt (JNum 1) page) (dflt (JNum 20) size')"]
  show "getNotifications env page size' s =
        Some (Inl (''Failed to get notifications: '' @ message err),
              s\<lparr>calls := calls s @
                 [ResourceGet ''/v1/notification''
                    [(''page'', dflt (JNum 1) page), (''size'', dflt (JNum 20) size')]
                    (authorization s)]\<rparr>)"
    by (simp add: getNotifications_def)
next
  assume h: "opRequest (GetPosts communityId (dflt (JNum 1) page) (dflt (JNum 20) size')
                    (dflt (JStr ''all'') type)) =
          Inr (''/v1/community/'' @ communityId @ ''/posts'', params)
       \<and> http env (calls s)
           (ResourceGet (''/v1/community/'' @ communityId @ ''/posts'') params (authorization s)) =
          Inl err"
  from h perform_other_failure [OF conjunct1 [OF h] conjunct2 [OF h] other]
  show "getPosts env communityId page size' type s =
        Some (Inl (''Failed to get posts: '' @ message err),
              s\<lparr>calls := calls s @
                 [ResourceGet (''/v1/community/'' @ communityId @ ''/posts'') params
                    (authorization s)]\<rparr>)"
    by (simp add: getPosts_def)
next
  assume "http env (calls s)
         (ResourceGet (''/v1/community/'' @ communityId @ ''/artists'') [] (authorization s)) =
          Inl err"
  from perform_other_failure [OF _ this other, of "GetArtists communityId"]
  show "getArtists env communityId s =
        Some (Inl (''Failed to get artists: '' @ message err),
              s\<lparr>calls := calls s @
                 [ResourceGet (''/v1/community/'' @ communityId @ ''/artists'') []
                    (authorization s)]\<rparr>)"
    by (simp add: getArtists_def)
next
  assume "http env (calls s) (ResourceGet (''/v1/post/'' @ postId @ ''/media'') [] (authorization s)) =
          Inl err"
  from perform_other_failure [OF _ this other, of "GetMedia postId"]
  show "getMedia env postId s =
        Some (Inl (''Failed to get media: '' @ message err),
              s\<lparr>calls := calls s @
                 [ResourceGet (''/v1/post/'' @ postId @ ''/media'') [] (authorization s)]\<rparr>)"
    by (simp add: getMedia_def)
next
  assume "http env (calls s)
         (ResourceGet (''/v1/post/'' @ postId @ ''/comments'')
            [(''page'', dflt (JNum 1) page), (''size'', dflt (JNum 20) size'),
             (''sort'', JStr ''RECENT'')]
            (authorization s)) = Inl err"
  from perform_other_failure
    [OF _ this other, of "GetComments postId (dflt (JNum 1) page) (dflt (JNum 20) size')"]
  show "getComments env postId page size' s =
        Some (Inl (''Failed to get comments: '' @ message err),
              s\<lparr>calls := calls s @
                 [ResourceGet (''/v1/post/'' @ postId @ ''/comments'')
                    [(''page'', dflt (JNum 1) page), (''size'', dflt (JNum 20) size'),
                     (''sort'', JStr ''RECENT'')]
                    (authorization s)]\<rparr>)"
    by (simp add: getComments_def)
qed

theorem other_failure_is_wrapped_and_not_retried_witness:
  "getCommunities (scriptedEnv (\<lambda>n. Inl (Error ''timeout of 10000ms exceeded'' None)) (\<lambda>n. newTokens))
       loggedIn =
     Some (Inl ''Failed to get communities: timeout of 10000ms exceeded'',
           loggedIn\<lparr>calls := [ResourceGet ''/v1/communities'' [] (Some (JStr ''A1''))]\<rparr>)
   \<and> getPost (scriptedEnv (\<lambda>n. Inl (Error ''timeout of 10000ms exceeded'' None)) (\<lambda>n. newTokens))
       ''p1'' loggedIn =
     Some (Inl ''Failed to get post: timeout of 10000ms exceeded'',
           loggedIn\<lparr>calls := [ResourceGet ''/v1/post/p1'' [] (Some (JStr ''A1''))]\<rparr>)
   \<and> getNotifications
       (scriptedEnv (\<lambda>n. Inl (Error ''timeout of 10000ms exceeded'' None)) (\<lambda>n. newTokens))
       JUndefined JUndefined loggedIn =
     Some (Inl ''Failed to get notifications: timeout of 10000ms exceeded'',
           loggedIn\<lparr>calls := [ResourceGet ''/v1/notification''
                                 [(''page'', JNum 1), (''size'', JNum 20)] (Some (JStr ''A1''))]\<rparr>)
   \<and> getPosts (scriptedEnv (\<lambda>n. Inl (Error ''timeout of 10000ms exceeded'' None)) (\<lambda>n. newTokens))
       ''123'' JUndefined JUndefined JUndefined loggedIn =
     Some (Inl ''Failed to get posts: timeout of 10000ms exceeded'',
           loggedIn\<lparr>calls := [ResourceGet ''/v1/community/123/posts''
                                 [(''page'', JNum 1), (''size'', JNum 20), (''sort'', JStr ''RECENT'')]
                                 (Some (JStr ''A1''))]\<rparr>)
   \<and> getArtists (scriptedEnv (\<lambda>n. Inl (Error ''timeout of 10000ms exceeded'' None)) (\<lambda>n. newTokens))
       ''123'' loggedIn =
     Some (Inl ''Failed to get artists: timeout of 10000ms exceeded'',
           loggedIn\<lparr>calls := [ResourceGet ''/v1/community/123/artists'' [] (Some (JStr ''A1''))]\<rparr>)
   \<and> getMedia (scriptedEnv (\<lambda>n. Inl (Error ''timeout of 10000ms exceeded'' None)) (\<lambda>n. newTokens))
       ''p1'' loggedIn =
     Some (Inl ''Failed to get media: timeout of 10000ms exceeded'',
           loggedIn\<lparr>calls := [ResourceGet ''/v1/post/p1/media'' [] (Some (JStr ''A1''))]\<rparr>)
   \<and> getComments (scriptedEnv (\<lambda>n. Inl (Error ''timeout of 10000ms exceeded'' None)) (\<lambda>n. newTokens))
       ''p1'' JUndefined JUndefined loggedIn =
     Some (Inl ''Failed to get comments: timeout of 10000ms exceeded'',
           loggedIn\<lparr>calls := [ResourceGet ''/v1/post/p1/comments''
                                 [(''page'', JNum 1), (''size'', JNum 20), (''sort'', JStr ''RECENT'')]
                                 (Some (JStr ''A1''))]\<rparr>)"
proof -
  let ?env = "scriptedEnv (\<lambda>n. Inl (Error ''timeout of 10000ms exceeded'' None)) (\<lambda>n. newTokens)"
  let ?err = "Error ''timeout of 10000ms exceeded'' None"
  have other: "response_status ?err \<noteq> Some 401"
    by simp
  have failed: "http ?env h (ResourceGet path params auth) = Inl ?err" for h path params auth
    by (simp add: scriptedEnv_def)
  have req: "opRequest (GetPosts ''123'' (dflt (JNum 1) JUndefined) (dflt (JNum 20) JUndefined)
                          (dflt (JStr ''all'') JUndefined)) =
               Inr (''/v1/community/'' @ ''123'' @ ''/posts'',
                    [(''page'', JNum 1), (''size'', JNum 20), (''sort'', JStr ''RECENT'')])"
    by (rule opRequest_posts_default)
  from other_failure_is_wrapped_and_not_retried [OF other, of ?env loggedIn "''p1''" JUndefined JUndefined "''123''" JUndefined
      "[(''page'', JNum 1), (''size'', JNum 20), (''sort'', JStr ''RECENT'')]"] failed req
  show ?thesis
    by (simp add: dflt_def loggedIn_def)
qed

subsection \<open>refreshAccessToken and login\<close>

text \<open>
  Claim C3, as the code has it. \<^verbatim>\<open>refreshAccessToken\<close> returns false, without any call,
  when no refresh token is stored; it returns false, with the tokens unchanged, when the
  token exchange errors or returns no access token; and on success it replaces the access
  token, and replaces the refresh token when the exchange returned one, keeping the stored
  refresh token otherwise.
\<close>

theorem refreshAccessToken_outcomes:
  "(\<not> truthy (refreshToken s) \<longrightarrow> refreshAccessToken env s = (False, s))
   \<and> (truthy (refreshToken s)
        \<and> \<not> grantsToken (http env (calls s) (TokenPost (refreshToken s)))
      \<longrightarrow> refreshAccessToken env s =
            (False, s\<lparr>calls := calls s @ [TokenPost (refreshToken s)]\<rparr>))
   \<and> (truthy (refreshToken s)
        \<and> http env (calls s) (TokenPost (refreshToken s)) = Inr data
        \<and> \<not> nullish data \<and> truthy (getProp data ''access_token'')
      \<longrightarrow> refreshAccessToken env s =
            (True, s\<lparr>calls := calls s @ [TokenPost (refreshToken s)],
                     token := getProp data ''access_token'',
                     refreshToken := (if truthy (getProp data ''refresh_token'')
                                      then getProp data ''refresh_token'' else refreshToken s),
                     authorization := Some (getProp data ''access_token'')\<rparr>))"
proof (intro conjI impI)
  assume "\<not> truthy (refreshToken s)"
  then show "refreshAccessToken env s = (False, s)"
    by (simp add: refreshAccessToken_def)
next
  assume "truthy (refreshToken s)
        \<and> \<not> grantsToken (http env (calls s) (TokenPost (refreshToken s)))"
  then show "refreshAccessToken env s =
            (False, s\<lparr>calls := calls s @ [TokenPost (refreshToken s)]\<rparr>)"
    by (auto simp: refreshAccessToken_def issue_def grantsToken_def split: sum.splits)
next
  assume "truthy (refreshToken s)
        \<and> http env (calls s) (TokenPost (refreshToken s)) = Inr data
        \<and> \<not> nullish data \<and> truthy (getProp data ''access_token'')"
  then show "refreshAccessToken env s =
            (True, s\<lparr>calls := calls s @ [TokenPost (refreshToken s)],
                     token := getProp data ''access_token'',
                     refreshToken := (if truthy (getProp data ''refresh_token'')
                                      then getProp data ''refresh_token'' else refreshToken s),
                     authorization := Some (getProp data ''access_token'')\<rparr>)"
    by (simp add: refreshAccessToken_def issue_def)
qed

theorem refreshAccessToken_outcomes_witness:
  "refreshAccessToken (scriptedEnv (\<lambda>n. expired401) (\<lambda>n. newTokens)) (WeverseClient_new None) =
     (False, WeverseClient_new None)
   \<and> refreshAccessToken (scriptedEnv (\<lambda>n. expired401) (\<lambda>n. refused400)) loggedIn =
     (False, loggedIn\<lparr>calls := [TokenPost (JStr ''R1'')]\<rparr>)
   \<and> refreshAccessToken (scriptedEnv (\<lambda>n. expired401) (\<lambda>n. newTokens)) loggedIn =
     (True, \<lparr>token = JStr ''A2'', refreshToken = JStr ''R2'', authorization = Some (JStr ''A2''),
             calls = [TokenPost (JStr ''R1'')]\<rparr>)"
proof -
  have a: "refreshAccessToken (scriptedEnv (\<lambda>n. expired401) (\<lambda>n. newTokens)) (WeverseClient_new None) =
     (False, WeverseClient_new None)"
    using refreshAccessToken_outcomes
      [where s = "WeverseClient_new None" and env = "scriptedEnv (\<lambda>n. expired401) (\<lambda>n. newTokens)"]
    by (simp add: WeverseClient_new_def)
  have b: "refreshAccessToken (scriptedEnv (\<lambda>n. expired401) (\<lambda>n. refused400)) loggedIn =
     (False, loggedIn\<lparr>calls := [TokenPost (JStr ''R1'')]\<rparr>)"
    using refreshAccessToken_outcomes
      [where s = loggedIn and env = "scriptedEnv (\<lambda>n. expired401) (\<lambda>n. refused400)"]
    by (simp add: loggedIn_def scriptedEnv_def refused400_def grantsToken_def)
  have c: "refreshAccessToken (scriptedEnv (\<lambda>n. expired401) (\<lambda>n. newTokens)) loggedIn =
     (True, \<lparr>token = JStr ''A2'', refreshToken = JStr ''R2'', authorization = Some (JStr ''A2''),
             calls = [TokenPost (JStr ''R1'')]\<rparr>)"
    using refreshAccessToken_outcomes
      [where s = loggedIn and env = "scriptedEnv (\<lambda>n. expired401) (\<lambda>n. newTokens)"
         and data = "JObj [(''access_token'', JStr ''A2''), (''refresh_token'', JStr ''R2'')]"]
    by (simp add: loggedIn_def scriptedEnv_def newTokens_def)
  from a b c show ?thesis by simp
qed

text \<open>
  Claim C3 as stated (on success both tokens are replaced by what the exchange returned)
  fails when the exchange returns an access token and no refresh token: the refresh
  succeeds and the stored refresh token stays.
\<close>

theorem refreshAccessToken_keeps_refresh_token_counterexample:
  "fst (refreshAccessToken
          (scriptedEnv (\<lambda>n. expired401) (\<lambda>n. Inr (JObj [(''access_token'', JStr ''A2'')])))
          loggedIn)
   \<and> refreshToken (snd (refreshAccessToken
          (scriptedEnv (\<lambda>n. expired401) (\<lambda>n. Inr (JObj [(''access_token'', JStr ''A2'')])))
          loggedIn)) = JStr ''R1''
   \<and> getProp (JObj [(''access_token'', JStr ''A2'')]) ''refresh_token'' = JUndefined"
  by (simp add: refreshAccessToken_def issue_def scriptedEnv_def loggedIn_def)



subsection \<open>The request of getPosts\<close>

text \<open>
  Claim C8, as the code has it. \<^verbatim>\<open>getPosts(communityId)\<close> without page, size and type
  first issues a GET to \<^verbatim>\<open>/v1/community/{communityId}/posts\<close> with the params page 1,
  size 20, sort RECENT and no type; every further call it issues is that GET again or a
  token exchange; and it is the only call unless the upstream answers it with 401.
  \<^verbatim>\<open>getPosts(communityId, 1, 20, "artist")\<close> does the same with the additional param
  type ARTIST.
\<close>

theorem getPosts_request_parameters:
  "(let path = ''/v1/community/'' @ communityId @ ''/posts'';
        params = [(''page'', JNum 1), (''size'', JNum 20), (''sort'', JStr ''RECENT'')];
        filtered = params @ [(''type'', JStr ''ARTIST'')]
    in (getPosts env communityId JUndefined JUndefined JUndefined s = Some (r, s') \<longrightarrow>
          (\<exists>rest. calls s' = calls s @ ResourceGet path params (authorization s) # rest
                 \<and> list_all (retryTraffic path params) rest))
     \<and> (\<not> unauthorized (http env (calls s) (ResourceGet path params (authorization s))) \<longrightarrow>
          (\<exists>r. getPosts env communityId JUndefined JUndefined JUndefined s =
                 Some (r, s\<lparr>calls := calls s @ [ResourceGet path params (authorization s)]\<rparr>)))
     \<and> (getPosts env communityId (JNum 1) (JNum 20) (JStr ''artist'') s = Some (r, s') \<longrightarrow>
          (\<exists>rest. calls s' = calls s @ ResourceGet path filtered (authorization s) # rest
                 \<and> list_all (retryTraffic path filtered) rest))
     \<and> (\<not> unauthorized (http env (calls s) (ResourceGet path filtered (authorization s))) \<longrightarrow>
          (\<exists>r. getPosts env communityId (JNum 1) (JNum 20) (JStr ''artist'') s =
                 Some (r, s\<lparr>calls := calls s @ [ResourceGet path filtered (authorization s)]\<rparr>))))"
proof -
  let ?path = "''/v1/community/'' @ communityId @ ''/posts''"
  let ?params = "[(''page'', JNum 1), (''size'', JNum 20), (''sort'', JStr ''RECENT'')]"
  let ?filtered = "?params @ [(''type'', JStr ''ARTIST'')]"
  let ?plain = "GetPosts communityId (dflt (JNum 1) JUndefined) (dflt (JNum 20) JUndefined)
                  (dflt (JStr ''all'') JUndefined)"
  let ?artist = "GetPosts communityId (dflt (JNum 1) (JNum 1)) (dflt (JNum 20) (JNum 20))
                  (dflt (JStr ''all'') (JStr ''artist''))"
  have p: "opRequest ?plain = Inr (?path, ?params)"
    by (rule opRequest_posts_default)
  have a: "opRequest ?artist = Inr (?path, ?filtered)"
    using opRequest_posts_artist [of communityId] by simp
  have c1: "\<exists>rest. calls s' = calls s @ ResourceGet ?path ?params (authorization s) # rest
                 \<and> list_all (retryTraffic ?path ?params) rest"
    if "getPosts env communityId JUndefined JUndefined JUndefined s = Some (r, s')"
    using that perform_traffic [OF _ p, of env s r s'] by (simp add: getPosts_def)
  have c2: "\<exists>r. getPosts env communityId JUndefined JUndefined JUndefined s =
                 Some (r, s\<lparr>calls := calls s @ [ResourceGet ?path ?params (authorization s)]\<rparr>)"
    if "\<not> unauthorized (http env (calls s) (ResourceGet ?path ?params (authorization s)))"
    using perform_single_call [OF p that] by (simp add: getPosts_def)
  have c3: "\<exists>rest. calls s' = calls s @ ResourceGet ?path ?filtered (authorization s) # rest
                 \<and> list_all (retryTraffic ?path ?filtered) rest"
    if "getPosts env communityId (JNum 1) (JNum 20) (JStr ''artist'') s = Some (r, s')"
    using that perform_traffic [OF _ a, of env s r s'] by (simp add: getPosts_def)
  have c4: "\<exists>r. getPosts env communityId (JNum 1) (JNum 20) (JStr ''artist'') s =
                 Some (r, s\<lparr>calls := calls s @ [ResourceGet ?path ?filtered (authorization s)]\<rparr>)"
    if "\<not> unauthorized (http env (calls s) (ResourceGet ?path ?filtered (authorization s)))"
    using perform_single_call [OF a that] by (simp add: getPosts_def)
  from c1 c2 c3 c4 show ?thesis
    unfolding Let_def by blast
qed

theorem getPosts_request_parameters_witness:
  "(\<exists>rest. [ResourceGet ''/v1/community/123/posts''
               [(''page'', JNum 1), (''size'', JNum 20), (''sort'', JStr ''RECENT'')]
               (Some (JStr ''A1''))] =
            calls loggedIn @ ResourceGet ''/v1/community/123/posts''
               [(''page'', JNum 1), (''size'', JNum 20), (''sort'', JStr ''RECENT'')]
               (authorization loggedIn) # rest)
   \<and> (\<exists>r. getPosts (scriptedEnv (\<lambda>n. Inr (JObj [(''data'', JArr [])])) (\<lambda>n. newTokens))
              ''123'' JUndefined JUndefined JUndefined loggedIn =
            Some (r, loggedIn\<lparr>calls := [ResourceGet ''/v1/community/123/posts''
                       [(''page'', JNum 1), (''size'', JNum 20), (''sort'', JStr ''RECENT'')]
                       (Some (JStr ''A1''))]\<rparr>))
   \<and> (\<exists>rest. [ResourceGet ''/v1/community/123/posts''
               [(''page'', JNum 1), (''size'', JNum 20), (''sort'', JStr ''RECENT''),
                (''type'', JStr ''ARTIST'')]
               (Some (JStr ''A1''))] =
            calls loggedIn @ ResourceGet ''/v1/community/123/posts''
               [(''page'', JNum 1), (''size'', JNum 20), (''sort'', JStr ''RECENT''),
                (''type'', JStr ''ARTIST'')]
               (authorization loggedIn) # rest)
   \<and> (\<exists>r. getPosts (scriptedEnv (\<lambda>n. Inr (JObj [(''data'', JArr [])])) (\<lambda>n. newTokens))
              ''123'' (JNum 1) (JNum 20) (JStr ''artist'') loggedIn =
            Some (r, loggedIn\<lparr>calls := [ResourceGet ''/v1/community/123/posts''
                       [(''page'', JNum 1), (''size'', JNum 20), (''sort'', JStr ''RECENT''),
                        (''type'', JStr ''ARTIST'')]
                       (Some (JStr ''A1''))]\<rparr>))"
proof -
  let ?env = "scriptedEnv (\<lambda>n. Inr (JObj [(''data'', JArr [])])) (\<lambda>n. newTokens)"
  let ?params = "[(''page'', JNum 1), (''size'', JNum 20), (''sort'', JStr ''RECENT'')]"
  let ?filtered = "[(''page'', JNum 1), (''size'', JNum 20), (''sort'', JStr ''RECENT''),
                    (''type'', JStr ''ARTIST'')]"
  let ?g = "ResourceGet ''/v1/community/123/posts'' ?params (Some (JStr ''A1''))"
  let ?ga = "ResourceGet ''/v1/community/123/posts'' ?filtered (Some (JStr ''A1''))"
  have e1: "getPosts ?env ''123'' JUndefined JUndefined JUndefined loggedIn =
              Some (Inr (JObj [(''data'', JArr [])]), loggedIn\<lparr>calls := [?g]\<rparr>)"
    by (simp add: getPosts_def perform_def dflt_def resourceCall.simps attempt_def issue_def
        scriptedEnv_def loggedIn_def)
  have e3: "getPosts ?env ''123'' (JNum 1) (JNum 20) (JStr ''artist'') loggedIn =
              Some (Inr (JObj [(''data'', JArr [])]), loggedIn\<lparr>calls := [?ga]\<rparr>)"
    by (simp add: getPosts_def perform_def dflt_def resourceCall.simps attempt_def issue_def
        scriptedEnv_def loggedIn_def toUpperCase_artist)
  have n: "\<not> unauthorized (http ?env h (ResourceGet path params auth))" for h path params auth
    by (simp add: scriptedEnv_def unauthorized_def)
  note plain = getPosts_request_parameters
    [where env = ?env and communityId = "''123''" and s = loggedIn
       and r = "Inr (JObj [(''data'', JArr [])])" and s' = "loggedIn\<lparr>calls := [?g]\<rparr>",
     unfolded Let_def]
  note artist = getPosts_request_parameters
    [where env = ?env and communityId = "''123''" and s = loggedIn
       and r = "Inr (JObj [(''data'', JArr [])])" and s' = "loggedIn\<lparr>calls := [?ga]\<rparr>",
     unfolded Let_def]
  from plain e1 n
  have p1: "\<exists>rest. calls (loggedIn\<lparr>calls := [?g]\<rparr>) =
              calls loggedIn @ ResourceGet (''/v1/community/'' @ ''123'' @ ''/posts'') ?params
                (authorization loggedIn) # rest
            \<and> list_all (retryTraffic (''/v1/community/'' @ ''123'' @ ''/posts'') ?params) rest"
    and p2: "\<exists>r. getPosts ?env ''123'' JUndefined JUndefined JUndefined loggedIn =
              Some (r, loggedIn\<lparr>calls := calls loggedIn @
                [ResourceGet (''/v1/community/'' @ ''123'' @ ''/posts'') ?params
                   (authorization loggedIn)]\<rparr>)"
    by blast+
  from artist e3 n
  have p3: "\<exists>rest. calls (loggedIn\<lparr>calls := [?ga]\<rparr>) =
              calls loggedIn @ ResourceGet (''/v1/community/'' @ ''123'' @ ''/posts'')
                (?params @ [(''type'', JStr ''ARTIST'')]) (authorization loggedIn) # rest
            \<and> list_all (retryTraffic (''/v1/community/'' @ ''123'' @ ''/posts'')
                (?params @ [(''type'', JStr ''ARTIST'')])) rest"
    and p4: "\<exists>r. getPosts ?env ''123'' (JNum 1) (JNum 20) (JStr ''artist'') loggedIn =
              Some (r, loggedIn\<lparr>calls := calls loggedIn @
                [ResourceGet (''/v1/community/'' @ ''123'' @ ''/posts'')
                   (?params @ [(''type'', JStr ''ARTIST'')]) (authorization loggedIn)]\<rparr>)"
    by blast+
  from p1 p2 p3 p4 show ?thesis
    by (simp add: loggedIn_def)
qed

text \<open>
  Claim C8 as stated (exactly one GET) fails when the upstream answers the first GET with
  401 and the refresh succeeds: \<^verbatim>\<open>getPosts\<close> issues the GET twice.
\<close>

theorem getPosts_two_gets_counterexample:
  "getPosts (scriptedEnv (\<lambda>n. if n = 0 then expired401 else Inr (JObj [(''data'', JArr [])]))
               (\<lambda>n. newTokens))
       ''123'' JUndefined JUndefined JUndefined loggedIn =
     Some (Inr (JObj [(''data'', JArr [])]),
           \<lparr>token = JStr ''A2'', refreshToken = JStr ''R2'', authorization = Some (JStr ''A2''),
            calls = [ResourceGet ''/v1/community/123/posts''
                       [(''page'', JNum 1), (''size'', JNum 20), (''sort'', JStr ''RECENT'')]
                       (Some (JStr ''A1'')),
                     TokenPost (JStr ''R1''),
                     ResourceGet ''/v1/community/123/posts''
                       [(''page'', JNum 1), (''size'', JNum 20), (''sort'', JStr ''RECENT'')]
                       (Some (JStr ''A2''))]\<rparr>)"
  by (simp add: getPosts_def perform_def dflt_def resourceCall.simps attempt_def issue_def
      scriptedEnv_def expired401_def newTokens_def loggedIn_def refreshAccessToken_def)

end
